theory Spec2Isabelle
  imports Complex_Main
begin

section \<open>RealTimeTranscriptionVAD (src/src/RealTimeTranscriptionVAD.tsx, lines 1-111)\<close>

text \<open>
  The component keeps two pieces of React state, \<open>audioList\<close> and \<open>transcription\<close>.
  Its two callbacks are the \<open>onSpeechEnd\<close> handler given to \<open>useMicVAD\<close> and the
  continuation of \<open>sendAudioForTranscription\<close> that runs when the promise of
  \<open>axios.post\<close> settles. The event loop runs one callback at a time, so each callback
  is a function from state to state.

  \<open>response.data.text\<close> is whatever the service sent: a string, or \<open>undefined\<close> when
  the data has no such field.
\<close>

datatype text_field = Undefined | Text string

text \<open>
  How \<open>axios.post\<close> ends when the component goes on living: the promise rejects
  (network error, status outside 2xx) and control reaches \<open>catch\<close>; or it is fulfilled
  with data that are not \<open>null\<close>, and \<open>response.data.text\<close> is read.
\<close>

datatype axios_result = Rejected | Fulfilled text_field


text \<open>
  \<open>posted\<close> is not a variable of the component: it logs the bodies handed to
  \<open>axios.post\<close>, in the order of the calls.
\<close>

record 'w vad_state =
  audioList :: "string list"
  transcription :: "text_field list"
  posted :: "'w list"

definition vad_init :: "'w vad_state" where
  "vad_init = \<lparr>audioList = [], transcription = [], posted = []\<rparr>"

text \<open>
  \<open>utils.encodeWAV\<close> and \<open>utils.arrayBufferToBase64\<close> belong to the library
  @ricky0123/vad-react; they are parameters here.
\<close>

definition audioURL :: "('a \<Rightarrow> 'w) \<Rightarrow> ('w \<Rightarrow> string) \<Rightarrow> 'a \<Rightarrow> string" where
  "audioURL encodeWAV arrayBufferToBase64 audio =
     ''data:audio/wav;base64,'' @ arrayBufferToBase64 (encodeWAV audio)"

text \<open>The synchronous part of \<open>sendAudioForTranscription\<close>: the request is issued.\<close>

definition sendAudioForTranscription :: "'w \<Rightarrow> 'w vad_state \<Rightarrow> 'w vad_state" where
  "sendAudioForTranscription audioBuffer s = s\<lparr>posted := posted s @ [audioBuffer]\<rparr>"

text \<open>The part after \<open>await\<close>: append the text, or log the error and change nothing.\<close>

fun sendAudioForTranscription_settled :: "axios_result \<Rightarrow> 'w vad_state \<Rightarrow> 'w vad_state" where
  "sendAudioForTranscription_settled (Fulfilled t) s = s\<lparr>transcription := transcription s @ [t]\<rparr>"
| "sendAudioForTranscription_settled Rejected s = s"


definition onSpeechEnd ::
  "('a \<Rightarrow> 'w) \<Rightarrow> ('w \<Rightarrow> string) \<Rightarrow> 'a \<Rightarrow> 'w vad_state \<Rightarrow> 'w vad_state" where
  "onSpeechEnd encodeWAV arrayBufferToBase64 audio s =
     (let wavBuffer = encodeWAV audio;
          s1 = s\<lparr>audioList := audioURL encodeWAV arrayBufferToBase64 audio # audioList s\<rparr>
      in sendAudioForTranscription wavBuffer s1)"

text \<open>
  A run of the component, as long as it is not removed, is a sequence of events: an
  utterance ends, or the request of the \<open>k\<close>-th utterance (counted from 1 in capture
  order) settles. The handler of a settled request does not look at \<open>k\<close>: the code
  carries no sequence number.
\<close>

datatype 'a vad_event = SpeechEnd 'a | Settled nat axios_result

fun vad_step ::
  "('a \<Rightarrow> 'w) \<Rightarrow> ('w \<Rightarrow> string) \<Rightarrow> 'w vad_state \<Rightarrow> 'a vad_event \<Rightarrow> 'w vad_state" where
  "vad_step enc b64 s (SpeechEnd audio) = onSpeechEnd enc b64 audio s"
| "vad_step enc b64 s (Settled k r) = sendAudioForTranscription_settled r s"

definition vad_run ::
  "('a \<Rightarrow> 'w) \<Rightarrow> ('w \<Rightarrow> string) \<Rightarrow> 'a vad_event list \<Rightarrow> 'w vad_state \<Rightarrow> 'w vad_state" where
  "vad_run enc b64 evs s = foldl (vad_step enc b64) s evs"

text \<open>
  A sequence of events can happen when every request settles once, after it was issued:
  \<open>issued\<close> counts the utterances so far, \<open>done\<close> lists the requests already settled.
\<close>

fun vad_possible :: "nat \<Rightarrow> nat list \<Rightarrow> 'a vad_event list \<Rightarrow> bool" where
  "vad_possible issued done [] = True"
| "vad_possible issued done (SpeechEnd audio # evs) = vad_possible (Suc issued) done evs"
| "vad_possible issued done (Settled k r # evs) =
     (1 \<le> k \<and> k \<le> issued \<and> k \<notin> set done \<and> vad_possible issued (k # done) evs)"

text \<open>What a run captured and what it was answered, read off the events.\<close>

fun clips :: "'a vad_event list \<Rightarrow> 'a list" where
  "clips [] = []"
| "clips (SpeechEnd audio # evs) = audio # clips evs"
| "clips (Settled k r # evs) = clips evs"

fun answers :: "'a vad_event list \<Rightarrow> text_field list" where
  "answers [] = []"
| "answers (SpeechEnd audio # evs) = answers evs"
| "answers (Settled k (Fulfilled t) # evs) = t # answers evs"
| "answers (Settled k Rejected # evs) = answers evs"

section \<open>Numbers and levels\<close>

text \<open>
  A JavaScript number: \<open>NaN\<close>, \<open>-Infinity\<close>, \<open>Infinity\<close> or a finite double, given by
  its value (the sign of a zero is not kept).
\<close>

datatype jsnum = NaN | NegInfinity | PosInfinity | Finite real

text \<open>
  The floating-point operations of the JavaScript engine that compute the level. They
  round, and \<open>Math.log10\<close> is only required to approximate the logarithm, so they are
  not defined here: every function that computes a level takes them as a parameter.
\<close>

record arith =
  js_add :: "jsnum \<Rightarrow> jsnum \<Rightarrow> jsnum"
  js_mul :: "jsnum \<Rightarrow> jsnum \<Rightarrow> jsnum"
  js_div :: "jsnum \<Rightarrow> jsnum \<Rightarrow> jsnum"
  Math_sqrt :: "jsnum \<Rightarrow> jsnum"
  Math_log10 :: "jsnum \<Rightarrow> jsnum"

text \<open>
  \<open>Math.sqrt(data.reduce((sum, val) => sum + val * val, 0) / data.length)\<close>. The samples
  are the finite values of a \<open>Float32Array\<close>. The loop of \<open>checkAudioLevel\<close> computes the
  same value.
\<close>

definition rms :: "arith \<Rightarrow> real list \<Rightarrow> jsnum" where
  "rms M data =
     Math_sqrt M
       (js_div M (foldl (\<lambda>sum val. js_add M sum (js_mul M (Finite val) (Finite val)))
                    (Finite 0) data)
                 (Finite (real (length data))))"

text \<open>\<open>20 * Math.log10(rms)\<close>.\<close>

definition db_level :: "arith \<Rightarrow> real list \<Rightarrow> jsnum" where
  "db_level M data = js_mul M (Finite 20) (Math_log10 M (rms M data))"

text \<open>\<open>x < t\<close> for a finite \<open>t\<close>: false on \<open>NaN\<close>. Comparison does not round.\<close>

fun js_less :: "jsnum \<Rightarrow> real \<Rightarrow> bool" where
  "js_less NaN t = False"
| "js_less NegInfinity t = True"
| "js_less PosInfinity t = False"
| "js_less (Finite x) t = (x < t)"

text \<open>\<open>x >= t\<close> for a finite \<open>t\<close>: false on \<open>NaN\<close>.\<close>

fun js_ge :: "jsnum \<Rightarrow> real \<Rightarrow> bool" where
  "js_ge NaN t = False"
| "js_ge NegInfinity t = False"
| "js_ge PosInfinity t = True"
| "js_ge (Finite x) t = (t \<le> x)"

text \<open>
  \<open>analyser.getFloatTimeDomainData(array)\<close> copies the current waveform into the array:
  when the array is shorter the excess samples are dropped, when it is longer its tail
  keeps its old contents.
\<close>

definition getFloatTimeDomainData :: "real list \<Rightarrow> real list \<Rightarrow> real list" where
  "getFloatTimeDomainData wave array = take (length array) wave @ drop (length wave) array"

section \<open>The browser's MediaRecorder\<close>

text \<open>
  The recorder is the browser's. What the components rely on is its \<open>state\<close>, whether
  the tracks of its stream are live, and that \<open>stop()\<close> on a recorder that is not
  inactive makes it inactive and queues a \<open>dataavailable\<close> event followed by a \<open>stop\<close>
  event; on an inactive recorder \<open>stop()\<close> does nothing. \<open>start()\<close> makes an inactive
  recorder record; on any other recorder it throws and leaves the recorder as it was.
  The only call that can meet a recorder that is not inactive is the last statement of
  \<open>mediaRecorder.onstop\<close>, so the exception cuts nothing else short.
\<close>

datatype RecordingState = Inactive | Recording | Paused

record MediaRecorder =
  rec_state :: RecordingState
  tracks_live :: bool
  stop_queued :: bool

definition new_MediaRecorder :: MediaRecorder where
  "new_MediaRecorder = \<lparr>rec_state = Inactive, tracks_live = True, stop_queued = False\<rparr>"

definition MediaRecorder_start :: "MediaRecorder \<Rightarrow> MediaRecorder" where
  "MediaRecorder_start r = (if rec_state r = Inactive then r\<lparr>rec_state := Recording\<rparr> else r)"

definition MediaRecorder_stop :: "MediaRecorder \<Rightarrow> MediaRecorder" where
  "MediaRecorder_stop r =
     (if rec_state r = Inactive then r else r\<lparr>rec_state := Inactive, stop_queued := True\<rparr>)"

text \<open>A blob is its bytes; \<open>new Blob(parts)\<close> concatenates the parts.\<close>

type_synonym blob = "nat list"

definition new_Blob :: "blob list \<Rightarrow> blob" where
  "new_Blob parts = concat parts"

text \<open>
  How a \<open>fetch\<close> of the transcription service ends: the promise rejects, or a response
  with a status arrives whose body is not JSON or is a JSON value other than \<open>null\<close>,
  given by its \<open>text\<close> property.
\<close>

datatype body = Malformed | Json text_field

datatype fetch_result = FetchRejected | Response nat body



datatype AudioContextState = Running | Closed

section \<open>TranscriptionApp (src/temp/live-whisper/src/TranscriptionApp.tsx)\<close>

definition VAD_THRESHOLD :: real where
  "VAD_THRESHOLD = -45"

definition SILENCE_DURATION :: int where
  "SILENCE_DURATION = 1000"

datatype status = Status_idle | Status_recording | Status_transcribing | Status_error

text \<open>
  The four pieces of React state and the six refs of the component. \<open>analyser\<close> holds
  the \<open>fftSize\<close> of the node. \<open>requests\<close> is not a variable of the component: it logs
  the bodies given to \<open>fetch\<close>, in the order of the calls.
\<close>

record app_state =
  isRecording :: bool
  status :: status
  transcriptions :: "text_field list"
  audioChunks :: "blob list"
  mediaRecorder :: "MediaRecorder option"
  audioContext :: "AudioContextState option"
  analyser :: "nat option"
  dataArray :: "real list option"
  silenceStart :: "int option"
  currentChunks :: "blob list"
  requests :: "blob list"

definition app_init :: app_state where
  "app_init = \<lparr>isRecording = False, status = Status_idle, transcriptions = [], audioChunks = [],
     mediaRecorder = None, audioContext = None, analyser = None, dataArray = None,
     silenceStart = None, currentChunks = [], requests = []\<rparr>"

text \<open>
  \<open>detectSilence\<close>, given the engine's arithmetic, the waveform the analyser holds and
  the value of \<open>Date.now()\<close>.
  \<open>!silenceStart.current\<close> holds for \<open>null\<close> and for the number 0.
\<close>

definition detectSilence :: "arith \<Rightarrow> real list \<Rightarrow> int \<Rightarrow> app_state \<Rightarrow> app_state" where
  "detectSilence M wave now s =
     (case analyser s of
        None \<Rightarrow> s
      | Some _ \<Rightarrow>
         (case dataArray s of
            None \<Rightarrow> s
          | Some array \<Rightarrow>
             (let data = getFloatTimeDomainData wave array;
                  s1 = s\<lparr>dataArray := Some data\<rparr>;
                  db = db_level M data
              in if js_less db VAD_THRESHOLD then
                   (case silenceStart s1 of
                      None \<Rightarrow> s1\<lparr>silenceStart := Some now\<rparr>
                    | Some t \<Rightarrow>
                       if t = 0 then s1\<lparr>silenceStart := Some now\<rparr>
                       else if now - t > SILENCE_DURATION \<and> length (currentChunks s1) > 0
                       then s1\<lparr>mediaRecorder := map_option MediaRecorder_stop (mediaRecorder s1),
                                currentChunks := []\<rparr>
                       else s1)
                 else s1\<lparr>silenceStart := None\<rparr>)))"

text \<open>\<open>checkSilence\<close> reads the \<open>isRecording\<close> of the render that created it.\<close>

definition checkSilence ::
  "arith \<Rightarrow> bool \<Rightarrow> real list \<Rightarrow> int \<Rightarrow> app_state \<Rightarrow> app_state" where
  "checkSilence M isRecording_seen wave now s =
     (if isRecording_seen then detectSilence M wave now s else s)"

definition ondataavailable :: "blob \<Rightarrow> app_state \<Rightarrow> app_state" where
  "ondataavailable e_data s = s\<lparr>currentChunks := currentChunks s @ [e_data]\<rparr>"

text \<open>\<open>mediaRecorder.onstop\<close> up to its \<open>await\<close>: the segment is built and posted.\<close>

definition onstop :: "app_state \<Rightarrow> app_state" where
  "onstop s =
     (let audioBlob = new_Blob (currentChunks s)
      in s\<lparr>audioChunks := audioChunks s @ [audioBlob],
            status := Status_transcribing,
            requests := requests s @ [audioBlob]\<rparr>)"

text \<open>
  What \<open>mediaRecorder.onstop\<close> does to the state from the \<open>await\<close> on, when the body
  is not \<open>null\<close>. The status of the response is not looked at. A rejected \<open>fetch\<close> and
  a body that \<open>response.json()\<close> cannot parse end in \<open>catch\<close>, which logs.
\<close>

definition onstop_settled :: "fetch_result \<Rightarrow> app_state \<Rightarrow> app_state" where
  "onstop_settled res s =
     (let s1 = (case res of
                  Response st (Json t) \<Rightarrow> s\<lparr>transcriptions := transcriptions s @ [t]\<rparr>
                | _ \<Rightarrow> s)
      in s1\<lparr>status := Status_recording,
             mediaRecorder := map_option MediaRecorder_start (mediaRecorder s1)\<rparr>)"




text \<open>
  \<open>startRecording\<close>: \<open>granted\<close> tells whether \<open>getUserMedia\<close> resolved. The call of
  \<open>checkSilence\<close> at the end sees the \<open>isRecording\<close> of the state in which
  \<open>startRecording\<close> was created, not the value just set.
\<close>

definition startRecording ::
  "arith \<Rightarrow> bool \<Rightarrow> real list \<Rightarrow> int \<Rightarrow> app_state \<Rightarrow> app_state" where
  "startRecording M granted wave now s =
     (if granted then
        checkSilence M (isRecording s) wave now
          (s\<lparr>audioContext := Some Running,
             analyser := Some 1024,
             dataArray := Some (replicate 1024 0),
             mediaRecorder := Some (MediaRecorder_start new_MediaRecorder),
             isRecording := True,
             status := Status_recording\<rparr>)
      else s\<lparr>status := Status_error\<rparr>)"

definition stopRecording :: "app_state \<Rightarrow> app_state" where
  "stopRecording s =
     (case mediaRecorder s of
        None \<Rightarrow> s
      | Some r \<Rightarrow>
         if rec_state r \<noteq> Inactive then
           s\<lparr>mediaRecorder := Some ((MediaRecorder_stop r)\<lparr>tracks_live := False\<rparr>),
             audioContext := map_option (\<lambda>_. Closed) (audioContext s),
             isRecording := False,
             status := Status_idle\<rparr>
         else s)"

text \<open>
  The browser delivers the two events queued by \<open>stop()\<close>: \<open>dataavailable\<close> with the
  recorded data, then \<open>stop\<close>. \<open>None\<close> when no such events are queued.
\<close>

definition stop_events :: "blob \<Rightarrow> app_state \<Rightarrow> app_state option" where
  "stop_events e_data s =
     (case mediaRecorder s of
        None \<Rightarrow> None
      | Some r \<Rightarrow>
         if stop_queued r
         then Some (onstop (ondataavailable e_data (s\<lparr>mediaRecorder := Some (r\<lparr>stop_queued := False\<rparr>)\<rparr>)))
         else None)"

text \<open>
  The two events that reach the segment builder while the recorder runs: a silence check
  with the analyser's waveform and the clock, and a fragment from the recorder.
\<close>

datatype app_event = Sample "real list" int | Fragment blob

fun app_step :: "arith \<Rightarrow> app_state \<Rightarrow> app_event \<Rightarrow> app_state" where
  "app_step M s (Sample wave now) = detectSilence M wave now s"
| "app_step M s (Fragment e_data) = ondataavailable e_data s"

definition app_run :: "arith \<Rightarrow> app_event list \<Rightarrow> app_state \<Rightarrow> app_state" where
  "app_run M evs s = foldl (app_step M) s evs"

fun is_Sample :: "app_event \<Rightarrow> bool" where
  "is_Sample (Sample wave now) = True"
| "is_Sample (Fragment e_data) = False"

definition recorder_state :: "app_state \<Rightarrow> RecordingState option" where
  "recorder_state s = map_option rec_state (mediaRecorder s)"

text \<open>
  A segment is emitted between two states when a recorder that was not inactive has
  become inactive: its \<open>stop\<close> handler will build and post the segment.
\<close>

definition emitted :: "app_state \<Rightarrow> app_state \<Rightarrow> bool" where
  "emitted s s' =
     ((recorder_state s = Some Recording \<or> recorder_state s = Some Paused)
      \<and> recorder_state s' = Some Inactive)"

text \<open>
  A frame is silent for \<open>detectSilence\<close> when the level the engine computes for it is
  below the threshold.
\<close>

definition silent :: "arith \<Rightarrow> real list \<Rightarrow> bool" where
  "silent M data = js_less (db_level M data) VAD_THRESHOLD"

text \<open>
  The silence checks of a sequence of events, and the time at which the silence at its
  end began: the time of the earliest check of the unbroken run of silent checks that
  ends the sequence, \<open>None\<close> when the last check heard speech or there was no check.
\<close>

fun samples :: "app_event list \<Rightarrow> (real list \<times> int) list" where
  "samples [] = []"
| "samples (Sample wave now # evs) = (wave, now) # samples evs"
| "samples (Fragment e_data # evs) = samples evs"

definition silence_began :: "arith \<Rightarrow> app_event list \<Rightarrow> int option" where
  "silence_began M evs =
     (case takeWhile (\<lambda>(wave, now). silent M wave) (rev (samples evs)) of
        [] \<Rightarrow> None
      | x # xs \<Rightarrow> Some (snd (last (x # xs))))"

text \<open>
  A check is regular for an array of \<open>n\<close> entries when the waveform has \<open>n\<close> samples
  (the analyser's \<open>fftSize\<close>) and the clock is not at 0.
\<close>

fun regular :: "nat \<Rightarrow> app_event \<Rightarrow> bool" where
  "regular n (Sample wave now) = (length wave = n \<and> now \<noteq> 0)"
| "regular n (Fragment e_data) = True"

section \<open>AudioTranscription (src/src/RealTimeTranscriptionVAD.tsx, lines 112-419)\<close>

definition SILENCE_THRESHOLD :: real where
  "SILENCE_THRESHOLD = -50"

definition SILENCE_DURATION_AT :: int where
  "SILENCE_DURATION_AT = 1000"

text \<open>
  The argument of \<open>setError\<close>. The text after the prefix is \<open>API error: status\<close> for a
  response that is not ok, and otherwise the message of the error the browser threw.
\<close>

datatype cause = API_error nat | Browser_error

datatype error_message =
  Error_processing_audio cause | Microphone_access_error | Recording_error

text \<open>
  The state and the refs that recording uses (\<open>audioFile\<close> and \<open>isSupported\<close> belong to
  the upload form and the support check). \<open>silenceTimeout\<close> holds the handle of a timer;
  handles are positive numbers, so a handle is never falsy. Three fields are not
  variables of the component: \<open>timers\<close> lists the armed timeouts with the time they are
  due, \<open>next_handle\<close> is the handle \<open>setTimeout\<close> gives next, and \<open>requests_AT\<close> logs the
  bodies given to \<open>fetch\<close>.
\<close>

record at_state =
  isRecording_AT :: bool
  transcription_AT :: string
  error_AT :: "error_message option"
  mediaRecorder_AT :: "MediaRecorder option"
  silenceTimeout :: "nat option"
  audioContext_AT :: "AudioContextState option"
  audioQueue :: "blob list"
  timers :: "(nat \<times> int) list"
  next_handle :: nat
  requests_AT :: "blob list"

definition at_init :: at_state where
  "at_init = \<lparr>isRecording_AT = False, transcription_AT = [], error_AT = None,
     mediaRecorder_AT = None, silenceTimeout = None, audioContext_AT = None, audioQueue = [],
     timers = [], next_handle = 1, requests_AT = []\<rparr>"

definition stopRecording_AT :: "at_state \<Rightarrow> at_state" where
  "stopRecording_AT s =
     (let s1 = (case mediaRecorder_AT s of
                  None \<Rightarrow> s
                | Some r \<Rightarrow>
                   if rec_state r \<noteq> Inactive
                   then s\<lparr>mediaRecorder_AT := Some ((MediaRecorder_stop r)\<lparr>tracks_live := False\<rparr>)\<rparr>
                   else s);
          s2 = s1\<lparr>audioContext_AT := map_option (\<lambda>_. Closed) (audioContext_AT s1)\<rparr>
      in s2\<lparr>isRecording_AT := False\<rparr>)"

text \<open>\<open>processAudioChunk\<close> up to its \<open>await\<close>: the blob is posted.\<close>

definition processAudioChunk :: "blob \<Rightarrow> at_state \<Rightarrow> at_state" where
  "processAudioChunk blob s = s\<lparr>requests_AT := requests_AT s @ [blob]\<rparr>"

text \<open>The \<open>catch\<close> block of \<open>processAudioChunk\<close>.\<close>

definition processAudioChunk_catch :: "cause \<Rightarrow> at_state \<Rightarrow> at_state" where
  "processAudioChunk_catch c s = stopRecording_AT (s\<lparr>error_AT := Some (Error_processing_audio c)\<rparr>)"



text \<open>
  \<open>checkAudioLevel\<close>, given the engine's arithmetic, the \<open>isRecording\<close> of the render
  that created it, the analyser's waveform and the clock. The array is new at every call and has
  \<open>frequencyBinCount = fftSize / 2 = 1024\<close> entries.
\<close>

definition checkAudioLevel ::
  "arith \<Rightarrow> bool \<Rightarrow> real list \<Rightarrow> int \<Rightarrow> at_state \<Rightarrow> at_state" where
  "checkAudioLevel M isRecording_seen wave now s =
     (if \<not> isRecording_seen then s
      else
        (let dataArray = getFloatTimeDomainData wave (replicate 1024 0);
             db = db_level M dataArray
         in if js_less db SILENCE_THRESHOLD then
              (case silenceTimeout s of
                 None \<Rightarrow> s\<lparr>silenceTimeout := Some (next_handle s),
                           timers := timers s @ [(next_handle s, now + SILENCE_DURATION_AT)],
                           next_handle := Suc (next_handle s)\<rparr>
               | Some h \<Rightarrow> s)
            else
              (case silenceTimeout s of
                 None \<Rightarrow> s
               | Some h \<Rightarrow> s\<lparr>timers := filter (\<lambda>(h', due). h' \<noteq> h) (timers s),
                              silenceTimeout := None\<rparr>)))"

text \<open>The callback given to \<open>setTimeout\<close>.\<close>

definition silence_callback :: "at_state \<Rightarrow> at_state" where
  "silence_callback s =
     (if length (audioQueue s) > 0
      then (processAudioChunk (new_Blob (audioQueue s)) s)\<lparr>audioQueue := []\<rparr>
      else s)"

text \<open>
  The browser runs the callback of an armed timeout once it is due and disarms it;
  \<open>None\<close> when the handle is not armed or not yet due.
\<close>

definition timeout_fires :: "nat \<Rightarrow> int \<Rightarrow> at_state \<Rightarrow> at_state option" where
  "timeout_fires h now s =
     (case map_of (timers s) h of
        None \<Rightarrow> None
      | Some due \<Rightarrow>
         if due \<le> now
         then Some (silence_callback (s\<lparr>timers := filter (\<lambda>(h', due). h' \<noteq> h) (timers s)\<rparr>))
         else None)"

definition ondataavailable_AT :: "blob \<Rightarrow> at_state \<Rightarrow> at_state" where
  "ondataavailable_AT event_data s =
     (if length event_data > 0 then s\<lparr>audioQueue := audioQueue s @ [event_data]\<rparr> else s)"

text \<open>
  \<open>startRecording\<close>: \<open>granted\<close> tells whether \<open>getUserMedia\<close> resolved. \<open>setupVAD\<close> makes
  the audio context and calls \<open>checkAudioLevel\<close> once, which sees the \<open>isRecording\<close> of
  the state in which \<open>startRecording\<close> was created.
\<close>

definition startRecording_AT ::
  "arith \<Rightarrow> bool \<Rightarrow> real list \<Rightarrow> int \<Rightarrow> at_state \<Rightarrow> at_state" where
  "startRecording_AT M granted wave now s =
     (let s1 = s\<lparr>error_AT := None\<rparr>
      in if granted then
           (let s2 = s1\<lparr>mediaRecorder_AT := Some new_MediaRecorder\<rparr>;
                s3 = checkAudioLevel M (isRecording_AT s) wave now
                       (s2\<lparr>audioContext_AT := Some Running\<rparr>);
                s4 = s3\<lparr>mediaRecorder_AT := map_option MediaRecorder_start (mediaRecorder_AT s3)\<rparr>
            in s4\<lparr>isRecording_AT := True\<rparr>)
         else s1\<lparr>error_AT := Some Microphone_access_error\<rparr>)"



definition recorder_state_AT :: "at_state \<Rightarrow> RecordingState option" where
  "recorder_state_AT s = map_option rec_state (mediaRecorder_AT s)"

section \<open>Example runs\<close>

text \<open>
  Two utterances are captured; the answer to the second arrives before the answer to
  the first.
\<close>

definition out_of_order_run :: "nat list vad_event list" where
  "out_of_order_run =
     [SpeechEnd [1], SpeechEnd [2],
      Settled 2 (Fulfilled (Text ''b'')), Settled 1 (Fulfilled (Text ''a''))]"

text \<open>
  Arithmetic without rounding, for the example runs only. The engine's \<open>+\<close>, \<open>*\<close>, \<open>/\<close>
  and \<open>Math.sqrt\<close> give the exact result whenever it is a double, and \<open>Math.log10\<close> is
  \<open>-Infinity\<close> at 0 and 0 at 1. In the frames of the examples every sample is 0, every
  sample is 1, or every sample is 1/256: all sums, the mean and the root are doubles, so
  the engine computes what this arithmetic computes, but for the rounding of
  \<open>Math.log10(1/256)\<close> and of its product with 20, which leaves the level of that frame,
  about -48.16, between -50 and -45.
\<close>

fun un_add :: "jsnum \<Rightarrow> jsnum \<Rightarrow> jsnum" where
  "un_add (Finite a) (Finite b) = Finite (a + b)"
| "un_add NaN y = NaN"
| "un_add x NaN = NaN"
| "un_add PosInfinity NegInfinity = NaN"
| "un_add NegInfinity PosInfinity = NaN"
| "un_add PosInfinity y = PosInfinity"
| "un_add x PosInfinity = PosInfinity"
| "un_add NegInfinity y = NegInfinity"
| "un_add x NegInfinity = NegInfinity"

fun un_mul :: "jsnum \<Rightarrow> jsnum \<Rightarrow> jsnum" where
  "un_mul (Finite a) (Finite b) = Finite (a * b)"
| "un_mul NaN y = NaN"
| "un_mul x NaN = NaN"
| "un_mul PosInfinity (Finite b) =
     (if b = 0 then NaN else if 0 < b then PosInfinity else NegInfinity)"
| "un_mul NegInfinity (Finite b) =
     (if b = 0 then NaN else if 0 < b then NegInfinity else PosInfinity)"
| "un_mul (Finite a) PosInfinity =
     (if a = 0 then NaN else if 0 < a then PosInfinity else NegInfinity)"
| "un_mul (Finite a) NegInfinity =
     (if a = 0 then NaN else if 0 < a then NegInfinity else PosInfinity)"
| "un_mul PosInfinity PosInfinity = PosInfinity"
| "un_mul PosInfinity NegInfinity = NegInfinity"
| "un_mul NegInfinity PosInfinity = NegInfinity"
| "un_mul NegInfinity NegInfinity = PosInfinity"

fun un_div :: "jsnum \<Rightarrow> jsnum \<Rightarrow> jsnum" where
  "un_div (Finite a) (Finite b) =
     (if b \<noteq> 0 then Finite (a / b)
      else if a = 0 then NaN else if 0 < a then PosInfinity else NegInfinity)"
| "un_div NaN y = NaN"
| "un_div x NaN = NaN"
| "un_div (Finite a) y = Finite 0"
| "un_div PosInfinity (Finite b) = (if 0 \<le> b then PosInfinity else NegInfinity)"
| "un_div NegInfinity (Finite b) = (if 0 \<le> b then NegInfinity else PosInfinity)"
| "un_div x y = NaN"

fun un_sqrt :: "jsnum \<Rightarrow> jsnum" where
  "un_sqrt (Finite a) = (if a < 0 then NaN else Finite (sqrt a))"
| "un_sqrt PosInfinity = PosInfinity"
| "un_sqrt x = NaN"

fun un_log10 :: "jsnum \<Rightarrow> jsnum" where
  "un_log10 (Finite a) =
     (if a < 0 then NaN else if a = 0 then NegInfinity else Finite (log 10 a))"
| "un_log10 PosInfinity = PosInfinity"
| "un_log10 x = NaN"

definition unrounded :: arith where
  "unrounded = \<lparr>js_add = un_add, js_mul = un_mul, js_div = un_div,
     Math_sqrt = un_sqrt, Math_log10 = un_log10\<rparr>"

text \<open>Waveforms: silence, a full-scale constant signal, and a faint constant signal.\<close>

definition zeros :: "real list" where
  "zeros = replicate 1024 0"

definition ones :: "real list" where
  "ones = replicate 1024 1"

definition quiet_wave :: "real list" where
  "quiet_wave = replicate 2048 (1 / 256)"

text \<open>
  TranscriptionApp: recording has started; a fragment has been accumulated; silence
  checks at 5000 ms and 6001 ms have stopped the recorder; the recorder's events have
  been delivered and the request is in flight; the answer has come and the recorder has
  been started again.
\<close>

definition listening :: app_state where
  "listening = startRecording unrounded True [] 0 app_init"

definition recording_with_chunk :: app_state where
  "recording_with_chunk = ondataavailable [1] listening"

definition first_emission :: app_state where
  "first_emission =
     detectSilence unrounded zeros 6001 (detectSilence unrounded zeros 5000 recording_with_chunk)"

definition in_flight_example :: app_state where
  "in_flight_example = the (stop_events [2] first_emission)"

definition restarted :: app_state where
  "restarted = onstop_settled (Response 200 (Json (Text ''a''))) in_flight_example"

text \<open>The end of that session: the user stops the recording, the status is idle.\<close>

definition stopped_session :: app_state where
  "stopped_session = stopRecording restarted"

text \<open>
  Another session: the user stops the recording right after its start, the recorder
  delivers its data and the segment is posted; it has not been answered.
\<close>

definition posted_after_stop :: app_state where
  "posted_after_stop = the (stop_events [2] (stopRecording listening))"

text \<open>
  Speech at 4000 ms and silence from 5000 ms on, with a fragment accumulated; and
  silence from 5000 ms on with no speech at all.
\<close>

definition boundary_run :: "app_event list" where
  "boundary_run = [Fragment [1], Sample ones 4000, Sample zeros 5000]"

definition speechless_run :: "app_event list" where
  "speechless_run = [Fragment [1], Sample zeros 5000]"

text \<open>
  AudioTranscription: recording with one fragment queued, and the same after a silent
  check at 500 ms has armed the silence timer.
\<close>

definition recording_AT :: at_state where
  "recording_AT = ondataavailable_AT [1] (startRecording_AT unrounded True [] 0 at_init)"

definition timer_armed :: at_state where
  "timer_armed = checkAudioLevel unrounded True (replicate 2048 0) 500 recording_AT"

text \<open>
  The invariant of a run of regular events from a state with no silence recorded: the
  analyser and its array are in place and \<open>silenceStart\<close> is the time at which the
  silence at the end of the run began.
\<close>

definition tracking :: "arith \<Rightarrow> nat \<Rightarrow> app_event list \<Rightarrow> app_state \<Rightarrow> bool" where
  "tracking M n evs s =
     (analyser s \<noteq> None \<and> (\<exists>array. dataArray s = Some array \<and> length array = n)
      \<and> silenceStart s = silence_began M evs \<and> silenceStart s \<noteq> Some 0)"

section \<open>Runs of RealTimeTranscriptionVAD\<close>

lemma vad_run_Nil: "vad_run enc b64 [] s = s"
  by (simp add: vad_run_def)

lemma vad_run_Cons: "vad_run enc b64 (e # evs) s = vad_run enc b64 evs (vad_step enc b64 s e)"
  by (simp add: vad_run_def)

lemma audioList_settled: "audioList (sendAudioForTranscription_settled r s) = audioList s"
  by (cases r) simp_all

lemma transcription_onSpeechEnd: "transcription (onSpeechEnd enc b64 a s) = transcription s"
  by (simp add: onSpeechEnd_def sendAudioForTranscription_def Let_def)

lemma audioList_onSpeechEnd:
  "audioList (onSpeechEnd enc b64 a s) = audioURL enc b64 a # audioList s"
  by (simp add: onSpeechEnd_def sendAudioForTranscription_def Let_def)

lemma audioList_vad_run:
  "audioList (vad_run enc b64 evs s) = rev (map (audioURL enc b64) (clips evs)) @ audioList s"
proof (induction evs arbitrary: s)
  case Nil
  show ?case by (simp add: vad_run_Nil)
next
  case (Cons e evs)
  show ?case
    by (cases e) (simp_all add: vad_run_Cons Cons.IH audioList_onSpeechEnd audioList_settled)
qed

lemma transcription_vad_run:
  "transcription (vad_run enc b64 evs s) = transcription s @ answers evs"
proof (induction evs arbitrary: s rule: answers.induct)
  case 1
  show ?case by (simp add: vad_run_Nil)
next
  case (2 audio evs)
  show ?case by (simp add: vad_run_Cons "2.IH" transcription_onSpeechEnd)
next
  case (3 k t evs)
  show ?case by (simp add: vad_run_Cons "3.IH")
next
  case (4 k evs)
  show ?case by (simp add: vad_run_Cons "4.IH")
qed

lemma answers_SpeechEnds: "answers (map SpeechEnd cs) = []"
  by (induction cs) simp_all

lemma answers_append: "answers (xs @ ys) = answers xs @ answers ys"
  by (induction xs rule: answers.induct) simp_all

lemma answers_Fulfilled: "answers (map (\<lambda>(k, t). Settled k (Fulfilled t)) cs) = map snd cs"
  by (induction cs) auto

section \<open>Levels of the example frames\<close>

lemma unrounded_simps [simp]:
  "js_add unrounded = un_add" "js_mul unrounded = un_mul" "js_div unrounded = un_div"
  "Math_sqrt unrounded = un_sqrt" "Math_log10 unrounded = un_log10"
  by (simp_all add: unrounded_def)

lemma foldl_sq_replicate:
  "foldl (\<lambda>sum val. un_add sum (Finite (val * val))) (Finite a) (replicate n c)
     = Finite (a + real n * (c * c))"
  by (induction n arbitrary: a) (simp_all add: algebra_simps)

lemma rms_replicate: "0 < n \<Longrightarrow> rms unrounded (replicate n c) = Finite \<bar>c\<bar>"
  by (simp add: rms_def foldl_sq_replicate)

lemma db_level_zeros: "0 < n \<Longrightarrow> db_level unrounded (replicate n 0) = NegInfinity"
  by (simp add: db_level_def rms_replicate)

lemma db_level_ones: "0 < n \<Longrightarrow> db_level unrounded (replicate n 1) = Finite 0"
  by (simp add: db_level_def rms_replicate)

lemma length_getFloatTimeDomainData [simp]:
  "length (getFloatTimeDomainData wave array) = length array"
  by (auto simp: getFloatTimeDomainData_def)

lemma getFloatTimeDomainData_same [simp]:
  "length wave = length array \<Longrightarrow> getFloatTimeDomainData wave array = wave"
  by (simp add: getFloatTimeDomainData_def)

lemma zeros_simps:
  "length zeros = 1024" "silent unrounded zeros" "db_level unrounded zeros = NegInfinity"
  by (simp_all add: zeros_def silent_def db_level_zeros)

lemma ones_simps:
  "length ones = 1024" "\<not> silent unrounded ones" "db_level unrounded ones = Finite 0"
  by (simp_all add: ones_def silent_def db_level_ones VAD_THRESHOLD_def)

lemma zeros_data: "getFloatTimeDomainData (replicate 2048 0) (replicate 1024 0) = replicate 1024 0"
  by (simp add: getFloatTimeDomainData_def)

lemma quiet_data: "getFloatTimeDomainData quiet_wave (replicate 1024 0) = replicate 1024 (1 / 256)"
  by (simp add: getFloatTimeDomainData_def quiet_wave_def)

lemma quiet_level:
  "db_level unrounded (replicate 1024 (1 / 256)) = Finite (20 * log 10 (1 / 256))"
  by (simp add: db_level_def rms_replicate)

text \<open>The level of the faint signal, about -48.16 dB, lies between -50 dB and -45 dB.\<close>

lemma log10_upper: "log 10 (1 / 256) < - 9 / 4"
proof -
  have a: "log 10 ((1 / 256) ^ 4) < log 10 (1 / 10 ^ 9)"
    by (subst log_less_cancel_iff) (simp_all add: power_divide)
  have b: "log 10 ((1 / 256 :: real) ^ 4) = 4 * log 10 (1 / 256)"
    using log_nat_power[of "1 / 256 :: real" 10 4] by simp
  have c: "log 10 (1 / 10 ^ 9) = - 9"
    using log_nat_power[of "1 / 10 :: real" 10 9] by (simp add: log_divide power_one_over)
  from a b c show ?thesis by simp
qed

lemma log10_lower: "- 5 / 2 \<le> log 10 (1 / 256 :: real)"
proof -
  have a: "log 10 (1 / 10 ^ 5) \<le> log 10 ((1 / 256) ^ 2)"
    by (subst log_le_cancel_iff) (simp_all add: power_divide)
  have b: "log 10 ((1 / 256 :: real) ^ 2) = 2 * log 10 (1 / 256)"
    using log_nat_power[of "1 / 256 :: real" 10 2] by simp
  have c: "log 10 (1 / 10 ^ 5) = - 5"
    using log_nat_power[of "1 / 10 :: real" 10 5] by (simp add: log_divide power_one_over)
  from a b c show ?thesis by simp
qed

section \<open>Levels under any arithmetic\<close>

lemma foldl_sq_zeros:
  assumes "js_mul M (Finite 0) (Finite 0) = Finite 0"
    and "js_add M (Finite 0) (Finite 0) = Finite 0"
    and "list_all (\<lambda>x. x = 0) data"
  shows "foldl (\<lambda>sum val. js_add M sum (js_mul M (Finite val) (Finite val))) (Finite 0) data
     = Finite 0"
  using assms(3) by (induction data) (simp_all add: assms(1,2))

lemma rms_zeros:
  assumes "js_mul M (Finite 0) (Finite 0) = Finite 0"
    and "js_add M (Finite 0) (Finite 0) = Finite 0"
    and "js_div M (Finite 0) (Finite (real (length data))) = Finite 0"
    and "Math_sqrt M (Finite 0) = Finite 0"
    and "list_all (\<lambda>x. x = 0) data"
  shows "rms M data = Finite 0"
  by (simp add: rms_def foldl_sq_zeros[OF assms(1,2,5)] assms(3,4))

lemma db_level_of_zero_rms:
  assumes "Math_log10 M (Finite 0) = NegInfinity"
    and "js_mul M (Finite 20) NegInfinity = NegInfinity"
    and "rms M data = Finite 0"
  shows "db_level M data = NegInfinity"
  by (simp add: db_level_def assms)

lemma not_js_less_iff: "(\<not> js_less x t) = (js_ge x t \<or> x = NaN)"
  by (cases x) auto

lemma silenceStart_detectSilence:
  "analyser s \<noteq> None \<Longrightarrow> dataArray s = Some array \<Longrightarrow>
   (silenceStart (detectSilence M wave now s) = None)
     = (\<not> js_less (db_level M (getFloatTimeDomainData wave array)) VAD_THRESHOLD)"
  by (auto simp: detectSilence_def Let_def split: option.splits)

lemma silenceTimeout_checkAudioLevel:
  "(silenceTimeout (checkAudioLevel M True wave now a) = None)
     = (\<not> js_less (db_level M (getFloatTimeDomainData wave (replicate 1024 0))) SILENCE_THRESHOLD)"
  by (auto simp: checkAudioLevel_def Let_def split: option.splits)

section \<open>Runs of TranscriptionApp\<close>

lemmas app_defs = listening_def recording_with_chunk_def first_emission_def
  in_flight_example_def restarted_def stopped_session_def posted_after_stop_def
  startRecording_def app_init_def checkSilence_def ondataavailable_def
  MediaRecorder_start_def MediaRecorder_stop_def new_MediaRecorder_def detectSilence_def
  Let_def stop_events_def onstop_def onstop_settled_def new_Blob_def recorder_state_def
  SILENCE_DURATION_def stopRecording_def app_run_def zeros_simps ones_simps VAD_THRESHOLD_def
  emitted_def

lemmas at_defs = recording_AT_def ondataavailable_AT_def startRecording_AT_def at_init_def
  checkAudioLevel_def Let_def new_MediaRecorder_def MediaRecorder_start_def MediaRecorder_stop_def
  recorder_state_AT_def processAudioChunk_def processAudioChunk_catch_def stopRecording_AT_def

lemma app_run_Nil: "app_run M [] s = s"
  by (simp add: app_run_def)

lemma app_run_Cons: "app_run M (e # evs) s = app_run M evs (app_step M s e)"
  by (simp add: app_run_def)

lemma app_run_snoc: "app_run M (evs @ [e]) s = app_step M (app_run M evs s) e"
  by (simp add: app_run_def)




lemma recorder_state_onstop_settled:
  "recorder_state s = Some Inactive \<Longrightarrow> recorder_state (onstop_settled res s) = Some Recording"
  by (auto simp: onstop_settled_def recorder_state_def Let_def MediaRecorder_start_def
      split: fetch_result.splits body.splits)


lemma detectSilence_regular:
  assumes "analyser s \<noteq> None" and "dataArray s = Some array" and "length wave = length array"
  shows "detectSilence M wave now s =
     (if silent M wave then
        (case silenceStart s of
           None \<Rightarrow> s\<lparr>dataArray := Some wave, silenceStart := Some now\<rparr>
         | Some t \<Rightarrow>
            if t = 0 then s\<lparr>dataArray := Some wave, silenceStart := Some now\<rparr>
            else if now - t > SILENCE_DURATION \<and> currentChunks s \<noteq> []
            then s\<lparr>dataArray := Some wave,
                   mediaRecorder := map_option MediaRecorder_stop (mediaRecorder s),
                   currentChunks := []\<rparr>
            else s\<lparr>dataArray := Some wave\<rparr>)
      else s\<lparr>dataArray := Some wave, silenceStart := None\<rparr>)"
  using assms by (auto simp: detectSilence_def silent_def Let_def split: option.splits)

lemma samples_snoc_Sample: "samples (evs @ [Sample wave now]) = samples evs @ [(wave, now)]"
  by (induction evs rule: samples.induct) simp_all

lemma samples_snoc_Fragment: "samples (evs @ [Fragment d]) = samples evs"
  by (induction evs rule: samples.induct) simp_all

lemma silence_began_Fragment: "silence_began M (evs @ [Fragment d]) = silence_began M evs"
  by (simp add: silence_began_def samples_snoc_Fragment)

lemma silence_began_speech:
  "\<not> silent M wave \<Longrightarrow> silence_began M (evs @ [Sample wave now]) = None"
  by (simp add: silence_began_def samples_snoc_Sample)

lemma silence_began_silent:
  "silent M wave \<Longrightarrow> silence_began M (evs @ [Sample wave now]) =
     (case silence_began M evs of None \<Rightarrow> Some now | Some t \<Rightarrow> Some t)"
  by (simp add: silence_began_def samples_snoc_Sample split: list.splits)

lemma tracking_step:
  assumes "tracking M n evs s" and "regular n e"
  shows "tracking M n (evs @ [e]) (app_step M s e)"
proof (cases e)
  case (Fragment d)
  then show ?thesis using assms(1)
    by (auto simp: tracking_def ondataavailable_def silence_began_Fragment)
next
  case (Sample wave now)
  from assms(1) obtain array where a: "analyser s \<noteq> None" "dataArray s = Some array"
    "length array = n" "silenceStart s = silence_began M evs" "silenceStart s \<noteq> Some 0"
    by (auto simp: tracking_def)
  from assms(2) Sample have w: "length wave = length array" "now \<noteq> 0" using a(3) by simp_all
  show ?thesis
  proof (cases "silent M wave")
    case True
    then show ?thesis using a w Sample
      by (auto simp: tracking_def detectSilence_regular[OF a(1,2) w(1)] silence_began_silent
          split: option.splits)
  next
    case False
    then show ?thesis using a w Sample
      by (auto simp: tracking_def detectSilence_regular[OF a(1,2) w(1)] silence_began_speech)
  qed
qed

lemma tracking_run:
  assumes "tracking M n [] s0" and "list_all (regular n) evs"
  shows "tracking M n evs (app_run M evs s0)"
  using assms(2)
proof (induction evs rule: rev_induct)
  case Nil
  then show ?case using assms(1) by (simp add: app_run_Nil)
next
  case (snoc e evs)
  then show ?case by (simp add: app_run_snoc tracking_step)
qed

lemma detectSilence_empty_chunks:
  "currentChunks s = [] \<Longrightarrow>
     mediaRecorder (detectSilence M wave now s) = mediaRecorder s
     \<and> currentChunks (detectSilence M wave now s) = []"
  by (simp add: detectSilence_def Let_def split: option.splits)

lemma samples_only_empty_chunks:
  "currentChunks s = [] \<Longrightarrow> list_all is_Sample evs \<Longrightarrow>
     mediaRecorder (app_run M evs s) = mediaRecorder s \<and> currentChunks (app_run M evs s) = []"
proof (induction evs arbitrary: s)
  case Nil
  then show ?case by (simp add: app_run_Nil)
next
  case (Cons e evs)
  then obtain wave now where e: "e = Sample wave now" by (cases e) simp_all
  have "currentChunks (app_step M s e) = []" "mediaRecorder (app_step M s e) = mediaRecorder s"
    using detectSilence_empty_chunks[OF Cons.prems(1), of M] e by simp_all
  then show ?case using Cons.IH[of "app_step M s e"] Cons.prems(2) by (simp add: app_run_Cons)
qed

lemma emitted_clears_chunks:
  "emitted s (detectSilence M wave now s) \<Longrightarrow> currentChunks (detectSilence M wave now s) = []"
  by (auto simp: emitted_def recorder_state_def detectSilence_def Let_def
      split: option.splits if_splits)

section \<open>What a run of checks and fragments leaves alone\<close>







section \<open>After an emission\<close>

lemma emitted_detectSilence:
  assumes "emitted s (detectSilence M wave now s)" and "dataArray s = Some array"
  shows "\<exists>t r. analyser s \<noteq> None \<and> silenceStart s = Some t \<and> t \<noteq> 0
      \<and> now - t > SILENCE_DURATION \<and> mediaRecorder s = Some r \<and> rec_state r \<noteq> Inactive
      \<and> detectSilence M wave now s =
           s\<lparr>dataArray := Some (getFloatTimeDomainData wave array),
             mediaRecorder := Some (MediaRecorder_stop r), currentChunks := []\<rparr>"
  using assms
  by (auto simp: emitted_def recorder_state_def detectSilence_def Let_def
      split: option.splits if_splits)

lemma emits_again:
  assumes "emitted s (detectSilence M wave now s)" and "dataArray s = Some array"
    and "stop_events e_data (detectSilence M wave now s) = Some s1"
    and "length wave2 = length array" and "silent M wave2" and "now \<le> now2"
  shows "emitted (onstop_settled res s1) (detectSilence M wave2 now2 (onstop_settled res s1))"
proof -
  from emitted_detectSilence[OF assms(1,2)] obtain t r where f:
    "analyser s \<noteq> None" "silenceStart s = Some t" "t \<noteq> 0" "now - t > SILENCE_DURATION"
    "mediaRecorder s = Some r" "rec_state r \<noteq> Inactive"
    "detectSilence M wave now s =
       s\<lparr>dataArray := Some (getFloatTimeDomainData wave array),
         mediaRecorder := Some (MediaRecorder_stop r), currentChunks := []\<rparr>"
    by blast
  let ?s2 = "onstop_settled res s1"
  have s1: "analyser s1 \<noteq> None" "dataArray s1 = Some (getFloatTimeDomainData wave array)"
    "silenceStart s1 = Some t" "currentChunks s1 = [e_data]"
    "recorder_state s1 = Some Inactive"
    using assms(3) f
    by (auto simp: stop_events_def onstop_def ondataavailable_def recorder_state_def
        MediaRecorder_stop_def Let_def split: if_splits)
  have s2: "analyser ?s2 \<noteq> None" "dataArray ?s2 = Some (getFloatTimeDomainData wave array)"
    "silenceStart ?s2 = Some t" "currentChunks ?s2 = [e_data]"
    using s1(1-4) by (auto simp: onstop_settled_def Let_def split: fetch_result.splits body.splits)
  have r2: "recorder_state ?s2 = Some Recording"
    using s1(5) by (rule recorder_state_onstop_settled)
  have w: "length wave2 = length (getFloatTimeDomainData wave array)"
    using assms(4) by simp
  have later: "now2 - t > SILENCE_DURATION" using f(4) assms(6) by simp
  show ?thesis
    using r2 s2(3,4) f(3) later assms(5)
    by (cases "mediaRecorder ?s2")
       (auto simp: detectSilence_regular[OF s2(1,2) w] emitted_def recorder_state_def
          MediaRecorder_stop_def)
qed

lemma silenceStart_kept_on_emission:
  "emitted s (detectSilence M wave now s) \<Longrightarrow>
     silenceStart (detectSilence M wave now s) = silenceStart s"
  by (auto simp: emitted_def recorder_state_def detectSilence_def Let_def
      split: option.splits if_splits)

section \<open>Handlers of AudioTranscription\<close>

lemma stopRecording_AT_simps:
  "isRecording_AT (stopRecording_AT s) = False"
  "error_AT (stopRecording_AT s) = error_AT s"
  "transcription_AT (stopRecording_AT s) = transcription_AT s"
  "requests_AT (stopRecording_AT s) = requests_AT s"
  "audioQueue (stopRecording_AT s) = audioQueue s"
  "timers (stopRecording_AT s) = timers s"
  "silenceTimeout (stopRecording_AT s) = silenceTimeout s"
  by (simp_all add: stopRecording_AT_def Let_def split: option.splits)




lemma silenceTimeout_timeout_fires:
  "timeout_fires h t a = Some a' \<Longrightarrow> silenceTimeout a' = silenceTimeout a"
  by (auto simp: timeout_fires_def silence_callback_def processAudioChunk_def
      split: option.splits if_splits)

lemma checkAudioLevel_silent_noop:
  "silenceTimeout a \<noteq> None \<Longrightarrow>
   js_less (db_level M (getFloatTimeDomainData wave (replicate 1024 0))) SILENCE_THRESHOLD \<Longrightarrow>
   checkAudioLevel M seen wave now a = a"
  by (auto simp: checkAudioLevel_def Let_def)

section \<open>Order of the transcript\<close>

text \<open>
  C1, as amended. The transcript lists the texts in the order in which the requests
  completed, whatever the order of capture: once the segments \<open>cs\<close> have been submitted
  and their answers arrive in the order \<open>rs\<close>, the transcript of
  RealTimeTranscriptionVAD reads the texts of \<open>rs\<close> in that order, and the stop handler of
  TranscriptionApp likewise appends the text of an answer when it arrives. So when the
  answer to segment 2 arrives before the answer to segment 1, its text comes first.
\<close>

theorem transcript_in_completion_order:
  "transcription (vad_run enc b64
      (map SpeechEnd cs @ map (\<lambda>(k, t). Settled k (Fulfilled t)) rs) vad_init) = map snd rs
   \<and> transcriptions (onstop_settled (Response st (Json t)) s) = transcriptions s @ [t]"
  by (simp add: transcription_vad_run answers_append answers_SpeechEnds answers_Fulfilled
      vad_init_def onstop_settled_def)

text \<open>
  The claim as first stated fails on the run in which segment 2 is answered with "b"
  before segment 1 is answered with "a": the transcript reads "b", then "a".
\<close>

theorem capture_order_counterexample:
  "vad_possible 0 [] out_of_order_run
   \<and> transcription (vad_run (\<lambda>audio. audio) (\<lambda>wav. ''AQ=='') out_of_order_run vad_init)
       = [Text ''b'', Text ''a'']
   \<and> transcription (vad_run (\<lambda>audio. audio) (\<lambda>wav. ''AQ=='') out_of_order_run vad_init)
       \<noteq> [Text ''a'', Text ''b'']"
  by (simp add: out_of_order_run_def vad_run_def vad_init_def onSpeechEnd_def
      sendAudioForTranscription_def Let_def)

text \<open>
  C9. In RealTimeTranscriptionVAD the clip of every finished utterance is put at the
  front of \<open>audioList\<close>, and the text of every fulfilled request is put at the end of
  \<open>transcription\<close> when the request settles. So after any sequence of events
  \<open>audioList\<close> holds the clips in reverse capture order and \<open>transcription\<close> holds
  the texts in the order in which the requests completed.
\<close>

theorem vad_lists_order:
  "audioList (onSpeechEnd enc b64 a s) = audioURL enc b64 a # audioList s
   \<and> transcription (sendAudioForTranscription_settled (Fulfilled t) s) = transcription s @ [t]
   \<and> audioList (vad_run enc b64 evs vad_init) = rev (map (audioURL enc b64) (clips evs))
   \<and> transcription (vad_run enc b64 evs vad_init) = answers evs"
  by (simp add: audioList_onSpeechEnd audioList_vad_run transcription_vad_run vad_init_def)

section \<open>Capture while a request is in flight\<close>




section \<open>Failed requests\<close>




section \<open>When a segment is emitted\<close>

text \<open>
  C4, as amended. For every sequence of silence checks and fragments from a state with
  no silence recorded, \<open>detectSilence\<close> of TranscriptionApp emits a segment at a check if
  and only if the frame is silent (whatever arithmetic computes the levels), the silence
  at the end of the sequence began more
  than \<open>SILENCE_DURATION\<close> (1000 ms) before this check, the accumulator is not empty and
  the recorder is not inactive. Whether speech occurred since the last emission plays no
  part. A segment is never emitted on an empty accumulator.
\<close>

theorem detectSilence_emits_iff:
  assumes "analyser s0 \<noteq> None" and "dataArray s0 = Some array" and "silenceStart s0 = None"
    and "list_all (regular (length array)) evs" and "length wave = length array"
  shows "emitted (app_run M evs s0) (detectSilence M wave now (app_run M evs s0)) =
     (silent M wave
      \<and> (\<exists>t. silence_began M evs = Some t \<and> now - t > SILENCE_DURATION)
      \<and> currentChunks (app_run M evs s0) \<noteq> []
      \<and> (recorder_state (app_run M evs s0) = Some Recording
          \<or> recorder_state (app_run M evs s0) = Some Paused))"
proof -
  let ?s = "app_run M evs s0"
  have "tracking M (length array) [] s0"
    using assms(1-3) by (simp add: tracking_def silence_began_def)
  then have "tracking M (length array) evs ?s"
    using assms(4) by (rule tracking_run)
  then obtain arr where a: "analyser ?s \<noteq> None" "dataArray ?s = Some arr"
    "length arr = length array" "silenceStart ?s = silence_began M evs" "silenceStart ?s \<noteq> Some 0"
    by (auto simp: tracking_def)
  have w: "length wave = length arr" using assms(5) a(3) by simp
  show ?thesis
    using a(4,5)
    by (cases "mediaRecorder ?s")
       (auto simp: detectSilence_regular[OF a(1,2) w] emitted_def recorder_state_def
          MediaRecorder_stop_def split: option.splits)
qed

text \<open>
  The theorem at a fragment followed by silence from 5000 ms on: the check at 6001 ms
  emits.
\<close>

theorem detectSilence_emits_iff_witness:
  "analyser listening \<noteq> None \<and> dataArray listening = Some (replicate 1024 0)
   \<and> silenceStart listening = None
   \<and> list_all (regular (length (replicate 1024 (0::real)))) speechless_run
   \<and> length zeros = length (replicate 1024 (0::real))
   \<and> emitted (app_run unrounded speechless_run listening)
        (detectSilence unrounded zeros 6001 (app_run unrounded speechless_run listening))"
proof -
  have h1: "analyser listening \<noteq> None" by (simp add: app_defs)
  have h2: "dataArray listening = Some (replicate 1024 0)" by (simp add: app_defs)
  have h3: "silenceStart listening = None" by (simp add: app_defs)
  have h4: "list_all (regular (length (replicate 1024 (0::real)))) speechless_run"
    by (simp add: speechless_run_def zeros_simps)
  have h5: "length zeros = length (replicate 1024 (0::real))" by (simp add: zeros_simps)
  have b: "silence_began unrounded speechless_run = Some 5000"
    by (simp add: silence_began_def speechless_run_def zeros_simps)
  have c: "currentChunks (app_run unrounded speechless_run listening) = [[1]]"
    "recorder_state (app_run unrounded speechless_run listening) = Some Recording"
    by (simp_all add: speechless_run_def app_defs)
  show ?thesis
    using h1 h2 h3 h4 h5 detectSilence_emits_iff[OF h1 h2 h3 h4 h5, where M = unrounded and now = 6001]
    by (simp add: b c zeros_simps SILENCE_DURATION_def)
qed

text \<open>
  The claim as first stated fails in both directions. After speech at 4000 ms and
  silence from 5000 ms on, with a fragment accumulated, the check at 6000 ms does not
  emit although the silence has lasted 1000 ms. And with no speech at all, silence from
  5000 ms on and a fragment accumulated, the check at 6001 ms emits.
\<close>

theorem emission_counterexample:
  "currentChunks (app_run unrounded boundary_run listening) = [[1]]
   \<and> silenceStart (app_run unrounded boundary_run listening) = Some 5000
   \<and> recorder_state (app_run unrounded boundary_run listening) = Some Recording
   \<and> \<not> emitted (app_run unrounded boundary_run listening)
          (detectSilence unrounded zeros 6000 (app_run unrounded boundary_run listening))
   \<and> emitted (app_run unrounded speechless_run listening)
        (detectSilence unrounded zeros 6001 (app_run unrounded speechless_run listening))"
  by (simp add: boundary_run_def speechless_run_def app_defs)

section \<open>One emission per silence\<close>

text \<open>
  C5, as amended. In TranscriptionApp, once \<open>detectSilence\<close> has emitted a segment the
  accumulator is empty, and the checks that follow, silent or not, emit nothing and
  leave the recorder alone as long as no fragment is accumulated. The emission keeps
  \<open>silenceStart\<close>: when the recorder has delivered its data, the segment has been posted
  and the request has settled, so that the recorder records again with that data
  accumulated, the next silent check emits a further segment at once, with no speech in
  between. In AudioTranscription, once the silence timer has gone off its handle is
  kept, so a further silent check changes nothing and arms no new timer.
\<close>

theorem no_emission_until_new_fragment:
  assumes "emitted s (detectSilence M wave now s)" and "list_all is_Sample evs"
    and "dataArray s = Some array"
    and "stop_events e_data (detectSilence M wave now s) = Some s1"
    and "length wave2 = length array" and "silent M wave2" and "now \<le> now2"
    and "silenceTimeout a = Some h" and "timeout_fires h t a = Some a'"
    and "js_less (db_level M (getFloatTimeDomainData wave' (replicate 1024 0))) SILENCE_THRESHOLD"
  shows "currentChunks (app_run M evs (detectSilence M wave now s)) = []
    \<and> mediaRecorder (app_run M evs (detectSilence M wave now s))
        = mediaRecorder (detectSilence M wave now s)
    \<and> silenceStart (detectSilence M wave now s) = silenceStart s
    \<and> emitted (onstop_settled res s1) (detectSilence M wave2 now2 (onstop_settled res s1))
    \<and> silenceTimeout a' = Some h
    \<and> checkAudioLevel M seen wave' now' a' = a'"
proof -
  have c: "currentChunks (detectSilence M wave now s) = []"
    using assms(1) by (rule emitted_clears_chunks)
  have k: "silenceStart (detectSilence M wave now s) = silenceStart s"
    using assms(1) by (rule silenceStart_kept_on_emission)
  have e: "emitted (onstop_settled res s1) (detectSilence M wave2 now2 (onstop_settled res s1))"
    using assms(1,3,4,5,6,7) by (rule emits_again)
  have t: "silenceTimeout a' = Some h"
    using silenceTimeout_timeout_fires[OF assms(9)] assms(8) by simp
  then have n: "checkAudioLevel M seen wave' now' a' = a'"
    using checkAudioLevel_silent_noop[of a' M wave' seen now'] assms(10) by simp
  show ?thesis
    using samples_only_empty_chunks[OF c assms(2)] k e t n by simp
qed

text \<open>
  The theorem after the emission at 6001 ms: three more checks emit nothing; after the
  data are delivered and the request is answered, the silent check at 6002 ms emits
  again. In AudioTranscription, the timer armed at 500 ms has gone off at 1500 ms and
  posted the queued fragment, and the silent check at 1600 ms changes nothing.
\<close>

theorem no_emission_until_new_fragment_witness:
  "emitted (detectSilence unrounded zeros 5000 recording_with_chunk) first_emission
   \<and> list_all is_Sample [Sample zeros 6100, Sample ones 6200, Sample zeros 9000]
   \<and> stop_events [2] first_emission = Some in_flight_example
   \<and> silent unrounded zeros
   \<and> silenceTimeout timer_armed = Some 1
   \<and> requests_AT (the (timeout_fires 1 1500 timer_armed)) = [[1]]
   \<and> currentChunks (app_run unrounded [Sample zeros 6100, Sample ones 6200, Sample zeros 9000]
        first_emission) = []
   \<and> recorder_state (app_run unrounded [Sample zeros 6100, Sample ones 6200, Sample zeros 9000]
        first_emission) = Some Inactive
   \<and> silenceStart first_emission = Some 5000
   \<and> emitted restarted (detectSilence unrounded zeros 6002 restarted)
   \<and> checkAudioLevel unrounded True (replicate 2048 0) 1600
        (the (timeout_fires 1 1500 timer_armed))
       = the (timeout_fires 1 1500 timer_armed)"
proof -
  let ?s = "detectSilence unrounded zeros 5000 recording_with_chunk"
  let ?evs = "[Sample zeros 6100, Sample ones 6200, Sample zeros 9000]"
  have f: "detectSilence unrounded zeros 6001 ?s = first_emission"
    by (simp add: first_emission_def)
  have h1: "emitted ?s (detectSilence unrounded zeros 6001 ?s)"
    by (simp add: app_defs)
  have h2: "list_all is_Sample ?evs" by simp
  have h3: "dataArray ?s = Some zeros"
    by (simp add: app_defs)
  have h4: "stop_events [2] (detectSilence unrounded zeros 6001 ?s) = Some in_flight_example"
    by (simp add: app_defs)
  have h5: "length zeros = length zeros" by simp
  have h6: "silent unrounded zeros" by (simp add: zeros_simps)
  have h7: "(6001::int) \<le> 6002" by simp
  have z: "js_less (db_level unrounded (getFloatTimeDomainData (replicate 2048 0) (replicate 1024 0)))
      SILENCE_THRESHOLD"
    by (simp add: zeros_data db_level_zeros)
  have h8: "silenceTimeout timer_armed = Some 1"
    using z by (simp add: timer_armed_def checkAudioLevel_def Let_def at_defs)
  have tm: "timers timer_armed = [(1, 1500)]" "audioQueue timer_armed = [[1]]"
    "requests_AT timer_armed = []"
    using z
    by (simp_all add: timer_armed_def checkAudioLevel_def Let_def at_defs SILENCE_DURATION_AT_def)
  have h9: "timeout_fires 1 1500 timer_armed = Some (the (timeout_fires 1 1500 timer_armed))"
    using tm by (simp add: timeout_fires_def)
  have r: "requests_AT (the (timeout_fires 1 1500 timer_armed)) = [[1]]"
    using tm by (simp add: timeout_fires_def silence_callback_def processAudioChunk_def new_Blob_def)
  have e: "recorder_state first_emission = Some Inactive"
    by (simp add: app_defs)
  have s5: "silenceStart ?s = Some 5000"
    by (simp add: app_defs)
  have th: "currentChunks (app_run unrounded ?evs first_emission) = []
    \<and> mediaRecorder (app_run unrounded ?evs first_emission) = mediaRecorder first_emission
    \<and> silenceStart first_emission = silenceStart ?s
    \<and> emitted restarted (detectSilence unrounded zeros 6002 restarted)
    \<and> silenceTimeout (the (timeout_fires 1 1500 timer_armed)) = Some 1
    \<and> checkAudioLevel unrounded True (replicate 2048 0) 1600
         (the (timeout_fires 1 1500 timer_armed))
        = the (timeout_fires 1 1500 timer_armed)"
    using no_emission_until_new_fragment[OF h1 h2 h3 h4 h5 h6 h7 h8 h9 z,
        where res = "Response 200 (Json (Text ''a''))" and seen = True and now' = 1600]
    by (simp add: f restarted_def)
  show ?thesis
    using th h1 h2 h4 h6 h8 r e s5 by (simp add: f recorder_state_def)
qed

text \<open>
  The claim as first stated fails in TranscriptionApp. The check at 6001 ms emits a
  segment; the recorder delivers its data, the segment is posted and answered and the
  recorder records again; the next check, at 6002 ms, is silent like all checks since
  5000 ms, and it emits a second segment.
\<close>

theorem second_emission_counterexample:
  "emitted (detectSilence unrounded zeros 5000 recording_with_chunk) first_emission
   \<and> silent unrounded zeros
   \<and> requests restarted = [[2]]
   \<and> emitted restarted (detectSilence unrounded zeros 6002 restarted)
   \<and> requests (the (stop_events [3] (detectSilence unrounded zeros 6002 restarted))) = [[2], [3]]"
  by (simp add: app_defs)

section \<open>Manual stop\<close>

text \<open>
  C6, as amended. In TranscriptionApp, \<open>stopRecording\<close> on a recording recorder sets the
  status to idle and stops the recorder; when the recorder then delivers its data, the
  stop handler builds a segment from the accumulated chunks and that data, posts it and
  sets the status to transcribing: the trailing utterance is submitted, after the status
  went to idle. In AudioTranscription, \<open>stopRecording\<close> posts nothing: the queued
  fragments stay in \<open>audioQueue\<close> and no timer is armed for them.
\<close>

theorem manual_stop_submission:
  assumes "recorder_state s = Some Recording"
  shows "map_option requests (stop_events e_data (stopRecording s))
           = Some (requests s @ [new_Blob (currentChunks s @ [e_data])])
    \<and> map_option status (stop_events e_data (stopRecording s)) = Some Status_transcribing
    \<and> status (stopRecording s) = Status_idle
    \<and> requests (stopRecording s) = requests s
    \<and> requests_AT (stopRecording_AT a) = requests_AT a
    \<and> audioQueue (stopRecording_AT a) = audioQueue a
    \<and> timers (stopRecording_AT a) = timers a"
  using assms
  by (auto simp: stopRecording_AT_simps stopRecording_def stop_events_def recorder_state_def
      MediaRecorder_stop_def onstop_def ondataavailable_def Let_def split: option.splits)

text \<open>
  The theorem at a recording session of TranscriptionApp with one fragment accumulated:
  the manual stop posts that fragment together with the data delivered at the stop.
\<close>

theorem manual_stop_submission_witness:
  "recorder_state recording_with_chunk = Some Recording
   \<and> map_option requests (stop_events [2] (stopRecording recording_with_chunk)) = Some [[1, 2]]"
proof -
  have h: "recorder_state recording_with_chunk = Some Recording"
    by (simp add: app_defs)
  have c: "currentChunks recording_with_chunk = [[1]]" "requests recording_with_chunk = []"
    by (simp_all add: app_defs)
  show ?thesis
    using h c manual_stop_submission[OF h, of "[2]" at_init]
    by (simp add: new_Blob_def)
qed

text \<open>
  The claim as first stated fails in AudioTranscription: the session is recording with
  a fragment queued and no silence timer pending; after \<open>stopRecording\<close> and the
  recorder's last fragment nothing has been posted, no timer is armed, and both
  fragments sit in the queue.
\<close>

theorem manual_stop_drops_utterance_counterexample:
  "isRecording_AT recording_AT \<and> recorder_state_AT recording_AT = Some Recording
   \<and> audioQueue recording_AT = [[1]] \<and> silenceTimeout recording_AT = None
   \<and> requests_AT (ondataavailable_AT [2] (stopRecording_AT recording_AT)) = []
   \<and> timers (ondataavailable_AT [2] (stopRecording_AT recording_AT)) = []
   \<and> audioQueue (ondataavailable_AT [2] (stopRecording_AT recording_AT)) = [[1], [2]]
   \<and> \<not> isRecording_AT (ondataavailable_AT [2] (stopRecording_AT recording_AT))"
  by (simp add: at_defs)

section \<open>Start of a session\<close>

text \<open>
  C7, as amended. \<open>startRecording\<close>, called when the component is not recording and the
  microphone is granted, installs a fresh recorder that records and sets \<open>isRecording\<close>
  (in TranscriptionApp also the status recording); it resets nothing else: in
  TranscriptionApp the transcript, the saved audio, the accumulator and \<open>silenceStart\<close>
  keep their values, in AudioTranscription the transcript, the queue and the timer
  handle keep theirs. There is no sequence counter.
\<close>

theorem startRecording_resets_nothing:
  assumes "\<not> isRecording s" and "\<not> isRecording_AT a"
  shows "transcriptions (startRecording M True wave now s) = transcriptions s
    \<and> audioChunks (startRecording M True wave now s) = audioChunks s
    \<and> currentChunks (startRecording M True wave now s) = currentChunks s
    \<and> silenceStart (startRecording M True wave now s) = silenceStart s
    \<and> recorder_state (startRecording M True wave now s) = Some Recording
    \<and> isRecording (startRecording M True wave now s)
    \<and> status (startRecording M True wave now s) = Status_recording
    \<and> transcription_AT (startRecording_AT M True wave now a) = transcription_AT a
    \<and> audioQueue (startRecording_AT M True wave now a) = audioQueue a
    \<and> silenceTimeout (startRecording_AT M True wave now a) = silenceTimeout a
    \<and> recorder_state_AT (startRecording_AT M True wave now a) = Some Recording
    \<and> isRecording_AT (startRecording_AT M True wave now a)"
  using assms
  by (simp add: startRecording_def checkSilence_def recorder_state_def MediaRecorder_start_def
      new_MediaRecorder_def startRecording_AT_def checkAudioLevel_def recorder_state_AT_def Let_def)

text \<open>
  The theorem at the end of a first session of TranscriptionApp and at the initial state
  of AudioTranscription.
\<close>

theorem startRecording_resets_nothing_witness:
  "\<not> isRecording stopped_session \<and> \<not> isRecording_AT at_init
   \<and> transcriptions (startRecording unrounded True [] 0 stopped_session) = [Text ''a'']
   \<and> audioQueue (startRecording_AT unrounded True [] 0 at_init) = []"
proof -
  have h1: "\<not> isRecording stopped_session" by (simp add: app_defs)
  have h2: "\<not> isRecording_AT at_init" by (simp add: at_init_def)
  have t: "transcriptions stopped_session = [Text ''a'']"
    by (simp add: app_defs)
  show ?thesis
    using h1 h2 t startRecording_resets_nothing[OF h1 h2, where M = unrounded and wave = "[]" and now = 0] by (simp add: at_init_def)
qed

text \<open>
  The claim as first stated fails after a first session in which one segment was
  answered with "a" and which the user then stopped: the component is idle, and a new
  start keeps the transcript, the saved audio, the accumulator and \<open>silenceStart\<close> of
  that session.
\<close>

theorem start_does_not_reset_counterexample:
  "\<not> isRecording stopped_session \<and> status stopped_session = Status_idle
   \<and> transcriptions (startRecording unrounded True [] 0 stopped_session) = [Text ''a'']
   \<and> currentChunks (startRecording unrounded True [] 0 stopped_session) = [[2]]
   \<and> audioChunks (startRecording unrounded True [] 0 stopped_session) = [[2]]
   \<and> silenceStart (startRecording unrounded True [] 0 stopped_session) = Some 5000"
  by (simp add: app_defs)

section \<open>Level and classification of a frame\<close>

text \<open>
  C8, as amended. For every frame that is not empty, the activity level is the number
  the JavaScript engine computes for \<open>20 * Math.log10(rms)\<close>, where \<open>rms\<close> is \<open>Math.sqrt\<close> of
  the mean of the squared samples, in the engine's double arithmetic. When \<open>rms\<close> is 0,
  \<open>Math.log10\<close> gives \<open>-Infinity\<close>, not \<open>NaN\<close>, and the level is \<open>-Infinity\<close>. The frame is
  classified as speech exactly when the computed level is at least the threshold or is
  \<open>NaN\<close>, the threshold being -45 dB in TranscriptionApp and -50 dB in AudioTranscription
  (speech is what resets \<open>silenceStart\<close>, or the timer handle, to \<open>null\<close>). A frame of
  zeros has the level \<open>-Infinity\<close> and is classified as silence; nothing is raised.
  Of the engine the theorem uses that \<open>0 * 0\<close>, \<open>0 + 0\<close>, \<open>0 / n\<close> and \<open>Math.sqrt(0)\<close> are 0,
  that \<open>Math.log10(0)\<close> is \<open>-Infinity\<close> and that \<open>20 * -Infinity\<close> is \<open>-Infinity\<close>.
\<close>

theorem level_and_classification:
  assumes "analyser s \<noteq> None" and "dataArray s = Some array" and "array \<noteq> []"
    and "js_mul M (Finite 0) (Finite 0) = Finite 0"
    and "js_add M (Finite 0) (Finite 0) = Finite 0"
    and "js_div M (Finite 0) (Finite (real (length array))) = Finite 0"
    and "js_div M (Finite 0) (Finite 1024) = Finite 0"
    and "Math_sqrt M (Finite 0) = Finite 0"
    and "Math_log10 M (Finite 0) = NegInfinity"
    and "js_mul M (Finite 20) NegInfinity = NegInfinity"
  shows "db_level M (getFloatTimeDomainData wave array)
        = js_mul M (Finite 20) (Math_log10 M (rms M (getFloatTimeDomainData wave array)))
    \<and> (rms M (getFloatTimeDomainData wave array) = Finite 0 \<longrightarrow>
          db_level M (getFloatTimeDomainData wave array) = NegInfinity)
    \<and> (silenceStart (detectSilence M wave now s) = None)
        = (js_ge (db_level M (getFloatTimeDomainData wave array)) (- 45)
           \<or> db_level M (getFloatTimeDomainData wave array) = NaN)
    \<and> (silenceTimeout (checkAudioLevel M True wave now a) = None)
        = (js_ge (db_level M (getFloatTimeDomainData wave (replicate 1024 0))) (- 50)
           \<or> db_level M (getFloatTimeDomainData wave (replicate 1024 0)) = NaN)
    \<and> (list_all (\<lambda>x. x = 0) (getFloatTimeDomainData wave array) \<longrightarrow>
          db_level M (getFloatTimeDomainData wave array) = NegInfinity
          \<and> silenceStart (detectSilence M wave now s) \<noteq> None)
    \<and> (list_all (\<lambda>x. x = 0) (getFloatTimeDomainData wave (replicate 1024 0)) \<longrightarrow>
          db_level M (getFloatTimeDomainData wave (replicate 1024 0)) = NegInfinity
          \<and> silenceTimeout (checkAudioLevel M True wave now a) \<noteq> None)"
proof -
  let ?d = "getFloatTimeDomainData wave array"
  let ?d' = "getFloatTimeDomainData wave (replicate 1024 0)"
  have p1: "db_level M ?d = js_mul M (Finite 20) (Math_log10 M (rms M ?d))"
    by (simp add: db_level_def)
  have p2: "rms M ?d = Finite 0 \<longrightarrow> db_level M ?d = NegInfinity"
    using db_level_of_zero_rms[OF assms(9,10)] by blast
  have p3: "(silenceStart (detectSilence M wave now s) = None)
      = (js_ge (db_level M ?d) (- 45) \<or> db_level M ?d = NaN)"
    using silenceStart_detectSilence[OF assms(1,2), of M wave now]
    by (simp add: VAD_THRESHOLD_def not_js_less_iff)
  have p4: "(silenceTimeout (checkAudioLevel M True wave now a) = None)
      = (js_ge (db_level M ?d') (- 50) \<or> db_level M ?d' = NaN)"
    using silenceTimeout_checkAudioLevel[of M wave now a]
    by (simp add: SILENCE_THRESHOLD_def not_js_less_iff)
  have z: "db_level M ?d = NegInfinity" if "list_all (\<lambda>x. x = 0) ?d"
  proof -
    have "js_div M (Finite 0) (Finite (real (length ?d))) = Finite 0"
      using assms(6) by simp
    then have "rms M ?d = Finite 0"
      using rms_zeros[OF assms(4,5) _ assms(8) that] by blast
    then show ?thesis using p2 by blast
  qed
  have z': "db_level M ?d' = NegInfinity" if "list_all (\<lambda>x. x = 0) ?d'"
  proof -
    have "js_div M (Finite 0) (Finite (real (length ?d'))) = Finite 0"
      using assms(7) by simp
    then have "rms M ?d' = Finite 0"
      using rms_zeros[OF assms(4,5) _ assms(8) that] by blast
    then show ?thesis using db_level_of_zero_rms[OF assms(9,10)] by blast
  qed
  have p5: "list_all (\<lambda>x. x = 0) ?d \<longrightarrow>
      db_level M ?d = NegInfinity \<and> silenceStart (detectSilence M wave now s) \<noteq> None"
    using z p3 by auto
  have p6: "list_all (\<lambda>x. x = 0) ?d' \<longrightarrow>
      db_level M ?d' = NegInfinity \<and> silenceTimeout (checkAudioLevel M True wave now a) \<noteq> None"
    using z' p4 by auto
  show ?thesis using p1 p2 p3 p4 p5 p6 by blast
qed

text \<open>
  The theorem at a frame of zeros in a recording session of TranscriptionApp: the level
  is \<open>-Infinity\<close> and the frame counts as silence.
\<close>

theorem level_and_classification_witness:
  "analyser recording_with_chunk \<noteq> None
   \<and> dataArray recording_with_chunk = Some (replicate 1024 0)
   \<and> replicate 1024 (0::real) \<noteq> []
   \<and> Math_log10 unrounded (Finite 0) = NegInfinity
   \<and> list_all (\<lambda>x. x = 0) (getFloatTimeDomainData zeros (replicate 1024 0))
   \<and> silenceStart (detectSilence unrounded zeros 5000 recording_with_chunk) \<noteq> None
   \<and> db_level unrounded (getFloatTimeDomainData zeros (replicate 1024 0)) = NegInfinity"
proof -
  have h1: "analyser recording_with_chunk \<noteq> None"
    by (simp add: app_defs)
  have h2: "dataArray recording_with_chunk = Some (replicate 1024 0)"
    by (simp add: app_defs)
  have h3: "replicate 1024 (0::real) \<noteq> []" by simp
  have h4: "js_mul unrounded (Finite 0) (Finite 0) = Finite 0" by simp
  have h5: "js_add unrounded (Finite 0) (Finite 0) = Finite 0" by simp
  have h6: "js_div unrounded (Finite 0) (Finite (real (length (replicate 1024 (0::real)))))
      = Finite 0" by simp
  have h7: "js_div unrounded (Finite 0) (Finite 1024) = Finite 0" by simp
  have h8: "Math_sqrt unrounded (Finite 0) = Finite 0" by simp
  have h9: "Math_log10 unrounded (Finite 0) = NegInfinity" by simp
  have h10: "js_mul unrounded (Finite 20) NegInfinity = NegInfinity" by simp
  have z: "list_all (\<lambda>x. x = 0) (getFloatTimeDomainData zeros (replicate 1024 0))"
    by (simp add: zeros_def list_all_iff)
  have "list_all (\<lambda>x. x = 0) (getFloatTimeDomainData zeros (replicate 1024 0)) \<longrightarrow>
      db_level unrounded (getFloatTimeDomainData zeros (replicate 1024 0)) = NegInfinity
      \<and> silenceStart (detectSilence unrounded zeros 5000 recording_with_chunk) \<noteq> None"
    using level_and_classification[OF h1 h2 h3 h4 h5 h6 h7 h8 h9 h10,
        where wave = zeros and now = 5000 and a = at_init]
    by blast
  then have c: "db_level unrounded (getFloatTimeDomainData zeros (replicate 1024 0)) = NegInfinity"
    "silenceStart (detectSilence unrounded zeros 5000 recording_with_chunk) \<noteq> None"
    using z by blast+
  show ?thesis
    using h1 h2 h3 h9 z c by blast
qed

text \<open>
  The claim as first stated fails in AudioTranscription, whose threshold is -50 dB: a
  constant signal of amplitude 1/256 has a level below -45 dB, and the check classifies
  it as speech, cancelling the silence timer that a frame of zeros had armed.
\<close>

theorem threshold_counterexample:
  "js_less (db_level unrounded (getFloatTimeDomainData quiet_wave (replicate 1024 0))) (- 45)
   \<and> silenceTimeout (checkAudioLevel unrounded True (replicate 2048 0) 500 recording_AT) = Some 1
   \<and> silenceTimeout (checkAudioLevel unrounded True quiet_wave 1000
        (checkAudioLevel unrounded True (replicate 2048 0) 500 recording_AT)) = None"
proof -
  have a: "js_less (db_level unrounded (getFloatTimeDomainData quiet_wave (replicate 1024 0))) (- 45)"
    using log10_upper by (simp add: quiet_data quiet_level)
  have b: "\<not> js_less (db_level unrounded (getFloatTimeDomainData quiet_wave (replicate 1024 0)))
      SILENCE_THRESHOLD"
    using log10_lower by (simp add: quiet_data quiet_level SILENCE_THRESHOLD_def)
  have c: "js_less (db_level unrounded (getFloatTimeDomainData (replicate 2048 0) (replicate 1024 0)))
      SILENCE_THRESHOLD"
    by (simp add: zeros_data db_level_zeros)
  have d: "silenceTimeout recording_AT = None" "next_handle recording_AT = 1"
    by (simp_all add: at_defs)
  have e: "silenceTimeout (checkAudioLevel unrounded True (replicate 2048 0) 500 recording_AT)
      = Some 1"
    using c d by (simp add: checkAudioLevel_def Let_def)
  have f: "silenceTimeout (checkAudioLevel unrounded True quiet_wave 1000
        (checkAudioLevel unrounded True (replicate 2048 0) 500 recording_AT)) = None"
    using b e by (simp add: checkAudioLevel_def[of unrounded True quiet_wave] Let_def)
  show ?thesis using a e f by simp
qed

section \<open>Stop when nothing records\<close>

text \<open>
  C10. In TranscriptionApp, \<open>stopRecording\<close> called when \<open>mediaRecorder\<close> is \<open>null\<close> or
  its state is inactive leaves the whole state of the component as it is:
  \<open>isRecording\<close>, \<open>status\<close>, \<open>transcriptions\<close>, \<open>audioChunks\<close> and all refs keep their
  values.
\<close>

theorem stopRecording_inactive_noop:
  "mediaRecorder s = None \<or> recorder_state s = Some Inactive \<Longrightarrow> stopRecording s = s"
  by (auto simp: stopRecording_def recorder_state_def split: option.splits)

text \<open>
  The theorem while a request is in flight and the recorder is inactive: the call
  changes nothing, the status stays transcribing.
\<close>

theorem stopRecording_inactive_noop_witness:
  "(mediaRecorder in_flight_example = None \<or> recorder_state in_flight_example = Some Inactive)
   \<and> stopRecording in_flight_example = in_flight_example
   \<and> status (stopRecording in_flight_example) = Status_transcribing"
proof -
  have h: "mediaRecorder in_flight_example = None \<or> recorder_state in_flight_example = Some Inactive"
    by (simp add: app_defs)
  have st: "status in_flight_example = Status_transcribing"
    by (simp add: app_defs)
  show ?thesis using h st stopRecording_inactive_noop[OF h] by simp
qed

end
